theory Spec2Isabelle
  imports Main "HOL-Library.List_Lexorder" "HOL-Library.Char_ord"
    "HOL-Library.Product_Lexorder" "HOL-Library.Word"
begin

section \<open>The overlap predicate of the server\<close>

text \<open>
  The server holds the dates of a request as the strings it received and compares them
  with the string operators of the language, which order strings lexicographically by
  code unit: \<open><\<close> on \<open>string\<close> is that order.
\<close>

text \<open>\<open>datesOverlap\<close>, server.ts lines 14-17.\<close>

definition datesOverlap :: "string \<Rightarrow> string \<Rightarrow> string \<Rightarrow> string \<Rightarrow> bool" where
  "datesOverlap startA endA startB endB = ((startA < endB) \<and> (endA > startB))"

section \<open>Values of the database\<close>

text \<open>
  The columns \<open>start_date\<close> and \<open>end_date\<close> have type \<open>date\<close>: a stored date is a
  calendar day (year, month, day), and the database compares dates chronologically,
  which is the lexicographic order of the triples. The key columns have type \<open>uuid\<close>: a
  stored identifier is its canonical text (lower case, hyphenated), the form in which
  the database also returns it.

  The statements of the handlers pass the strings of the request as parameters, and the
  database reads a parameter compared with or stored in such a column by the input
  function of the column's type. These two functions belong to the database, not to the
  server: the handlers take them as \<open>uuid_in\<close> and \<open>date_in\<close>. A text the input function
  rejects makes the statement throw.
\<close>

type_synonym uuid = string

type_synonym pg_date = "nat \<times> nat \<times> nat"

record postgres =
  uuid_in :: "string \<Rightarrow> uuid option"
  date_in :: "string \<Rightarrow> pg_date option"

text \<open>
  The filter of both booking queries (server.ts lines 48 and 95):
  \<open>NOT (end_date <= $2 OR start_date >= $3)\<close>, with the row's columns first and the
  two parameters, read as dates, after them.
\<close>

definition sql_window_filter :: "pg_date \<Rightarrow> pg_date \<Rightarrow> pg_date \<Rightarrow> pg_date \<Rightarrow> bool" where
  "sql_window_filter start_date end_date p2 p3 = (\<not> (end_date \<le> p2 \<or> start_date \<ge> p3))"

section \<open>Values of the request\<close>

text \<open>
  The fields of a query string or of a JSON body may be absent. An optional text field is
  a \<open>string option\<close>, \<open>None\<close> standing for \<open>undefined\<close> (or \<open>null\<close>). The handlers
  test fields with \<open>!x\<close> and default them with \<open>x || d\<close>: a text is falsy when it is
  absent or empty, a flag when it is absent or false.
\<close>

definition truthy :: "string option \<Rightarrow> bool" where
  "truthy v = (case v of None \<Rightarrow> False | Some s \<Rightarrow> s \<noteq> [])"

text \<open>The operator \<open>!\<close> on a text field.\<close>

definition falsy :: "string option \<Rightarrow> bool" where
  "falsy v = (\<not> truthy v)"

definition truthy_flag :: "bool option \<Rightarrow> bool" where
  "truthy_flag v = (case v of None \<Rightarrow> False | Some b \<Rightarrow> b)"

text \<open>
  A number of the request is a double: here the 64 bits of its IEEE 754 encoding (sign,
  11 bits of exponent, 52 bits of fraction). It is falsy when it is absent, \<open>+0\<close>, \<open>-0\<close>
  (the 63 bits below the sign are zero) or a NaN (they exceed the encoding of infinity).
\<close>

type_synonym js_number = "64 word"

definition truthy_num :: "js_number option \<Rightarrow> bool" where
  "truthy_num v =
     (case v of None \<Rightarrow> False
      | Some x \<Rightarrow> take_bit 63 x \<noteq> 0 \<and> take_bit 63 x \<le> 0x7FF0000000000000)"

text \<open>The text of a field; the handlers read it only after the field was found truthy.\<close>

definition str :: "string option \<Rightarrow> string" where
  "str v = (case v of None \<Rightarrow> [] | Some s \<Rightarrow> s)"

text \<open>The property key a value turns into when it indexes an object: \<open>null\<close> is the key \<open>"null"\<close>.\<close>

definition js_key :: "string option \<Rightarrow> string" where
  "js_key v = (case v of None \<Rightarrow> ''null'' | Some s \<Rightarrow> s)"

section \<open>The stored tables\<close>

text \<open>
  The rows of the three tables the handlers touch, with the columns their statements
  name: \<open>rooms\<close> and \<open>customers\<close> as in the migration and in the \<open>INSERT\<close> of server.ts
  line 108, \<open>bookings\<close> with the columns of the \<open>INSERT\<close> of server.ts line 119. A
  column that may hold \<open>NULL\<close> is an option. The timestamp columns, which no statement
  of the handlers reads, are left out. A table is the list of its rows in insertion order.
\<close>

record room_row =
  r_id :: uuid
  r_property_id :: "uuid option"
  r_room_number :: string
  r_room_type :: "string option"

record customer_row =
  c_id :: uuid
  c_first_name :: "string option"
  c_last_name :: "string option"
  c_email :: "string option"
  c_phone :: "string option"
  c_metadata :: string

record booking_row =
  b_id :: uuid
  b_property_id :: "uuid option"
  b_room_id :: "uuid option"
  b_customer_id :: "uuid option"
  b_status :: string
  b_start_date :: pg_date
  b_end_date :: pg_date
  b_total_amount :: "js_number option"
  b_currency :: "string option"

record database =
  rooms :: "room_row list"
  customers :: "customer_row list"
  bookings :: "booking_row list"

text \<open>
  The statements the handlers send. Each of them may throw (a lost connection, a violated
  constraint): the handlers take a predicate \<open>throws\<close> that says which statements do,
  and list the statements they sent. A statement also throws when the database rejects
  the text of one of its parameters.
\<close>

datatype stmt =
  SELECT_rooms | SELECT_bookings
  | CONNECT | BEGIN | LOCK | SELECT_conflicts | INSERT_customer | INSERT_booking
  | COMMIT | ROLLBACK

text \<open>\<open>status IN ('confirmed','hold')\<close>\<close>

definition active :: "booking_row \<Rightarrow> bool" where
  "active b = (b_status b \<in> {''confirmed'', ''hold''})"

text \<open>
  The replies of the two handlers: status 400 with its error text, 200 with
  \<open>{from, to, available}\<close>, 201 with \<open>{booking_id, status}\<close>, 409 with its error text
  and 500.
\<close>

type_synonym room_listing = "uuid \<times> string \<times> string option"

datatype reply =
  BadRequest string
  | Available string string "room_listing list"
  | Created string string
  | Conflict string
  | InternalError

section \<open>GET /availability\<close>

text \<open>\<open>SELECT id, room_number, room_type FROM rooms WHERE property_id = $1\<close>\<close>

definition select_rooms :: "database \<Rightarrow> uuid \<Rightarrow> room_listing list" where
  "select_rooms db p =
     map (\<lambda>r. (r_id r, r_room_number r, r_room_type r))
       (filter (\<lambda>r. r_property_id r = Some p) (rooms db))"

text \<open>
  \<open>SELECT room_id, start_date, end_date, status FROM bookings WHERE property_id = $1
  AND NOT (end_date <= $2 OR start_date >= $3) AND status IN ('confirmed','hold')\<close>
\<close>

definition select_bookings ::
  "database \<Rightarrow> uuid \<Rightarrow> pg_date \<Rightarrow> pg_date \<Rightarrow> booking_row list" where
  "select_bookings db p d2 d3 =
     filter (\<lambda>b. b_property_id b = Some p
                \<and> sql_window_filter (b_start_date b) (b_end_date b) d2 d3
                \<and> active b) (bookings db)"

text \<open>
  \<open>blockedByRoom\<close> is a plain object: the map holds the properties the loop
  \<open>for (const b of bookingsRes.rows) blockedByRoom[b.room_id] = true\<close> sets, and a key
  that was not set is looked up in \<open>Object.prototype\<close>, whose properties are all truthy.
  (Setting \<open>__proto__\<close> to \<open>true\<close> creates no property; the key reads as truthy either
  way.)
\<close>

fun mark_blocked :: "booking_row list \<Rightarrow> (string \<rightharpoonup> bool) \<Rightarrow> (string \<rightharpoonup> bool)" where
  "mark_blocked [] blockedByRoom = blockedByRoom"
| "mark_blocked (b # bs) blockedByRoom =
     mark_blocked bs (blockedByRoom(js_key (b_room_id b) \<mapsto> True))"

definition object_prototype :: "string list" where
  "object_prototype =
     [''constructor'', ''__defineGetter__'', ''__defineSetter__'', ''hasOwnProperty'',
      ''__lookupGetter__'', ''__lookupSetter__'', ''isPrototypeOf'',
      ''propertyIsEnumerable'', ''toString'', ''valueOf'', ''__proto__'',
      ''toLocaleString'']"

definition truthy_property :: "(string \<rightharpoonup> bool) \<Rightarrow> string \<Rightarrow> bool" where
  "truthy_property obj k =
     (case obj k of Some v \<Rightarrow> v | None \<Rightarrow> k \<in> set object_prototype)"

record availability_query =
  propertyId :: "string option"
  q_from :: "string option"
  q_to :: "string option"

text \<open>The handler, server.ts lines 33-59: its reply and the statements it sent.\<close>

definition get_availability ::
  "postgres \<Rightarrow> (stmt \<Rightarrow> bool) \<Rightarrow> database \<Rightarrow> availability_query \<Rightarrow> reply \<times> stmt list" where
  "get_availability pg throws db q =
     (if falsy (propertyId q) \<or> falsy (q_from q) \<or> falsy (q_to q)
      then (BadRequest ''propertyId, from, to required'', [])
      else if throws SELECT_rooms then (InternalError, [SELECT_rooms])
      else
        case uuid_in pg (str (propertyId q)) of
          None \<Rightarrow> (InternalError, [SELECT_rooms])
        | Some p \<Rightarrow>
            if throws SELECT_bookings then (InternalError, [SELECT_rooms, SELECT_bookings])
            else
              case date_in pg (str (q_from q)) of
                None \<Rightarrow> (InternalError, [SELECT_rooms, SELECT_bookings])
              | Some d2 \<Rightarrow>
                  case date_in pg (str (q_to q)) of
                    None \<Rightarrow> (InternalError, [SELECT_rooms, SELECT_bookings])
                  | Some d3 \<Rightarrow>
                      let rooms_rows = select_rooms db p;
                          bookings_rows = select_bookings db p d2 d3;
                          blockedByRoom = mark_blocked bookings_rows Map.empty;
                          available =
                            filter (\<lambda>r. \<not> truthy_property blockedByRoom (fst r)) rooms_rows
                      in (Available (str (q_from q)) (str (q_to q)) available,
                          [SELECT_rooms, SELECT_bookings]))"

section \<open>POST /bookings\<close>

record customer_input =
  cust_id :: "string option"
  first_name :: "string option"
  last_name :: "string option"
  email :: "string option"
  phone :: "string option"
  metadata :: "string option"

record booking_request =
  property_id :: "string option"
  room_id :: "string option"
  customer :: "customer_input option"
  start_date :: "string option"
  end_date :: "string option"
  hold :: "bool option"
  total_amount :: "js_number option"
  currency :: "string option"

text \<open>
  \<open>SELECT id, status FROM bookings WHERE room_id = $1
  AND NOT (end_date <= $2 OR start_date >= $3) AND status IN ('confirmed','hold')\<close>
\<close>

definition select_conflicts ::
  "database \<Rightarrow> uuid \<Rightarrow> pg_date \<Rightarrow> pg_date \<Rightarrow> booking_row list" where
  "select_conflicts db r d2 d3 =
     filter (\<lambda>b. b_room_id b = Some r
                \<and> sql_window_filter (b_start_date b) (b_end_date b) d2 d3
                \<and> active b) (bookings db)"

text \<open>
  The two rows the handler inserts, from the parameter lists of its \<open>INSERT\<close>s. The
  identifiers and the dates of the booking are what the database read from the
  parameters.
\<close>

definition new_customer :: "uuid \<Rightarrow> customer_input \<Rightarrow> customer_row" where
  "new_customer uuid c =
     \<lparr>c_id = uuid, c_first_name = first_name c, c_last_name = last_name c,
      c_email = email c, c_phone = phone c,
      c_metadata = (if truthy (metadata c) then str (metadata c) else ''{}'')\<rparr>"

definition new_booking ::
  "uuid \<Rightarrow> uuid \<Rightarrow> uuid \<Rightarrow> uuid \<Rightarrow> string \<Rightarrow> pg_date \<Rightarrow> pg_date \<Rightarrow> booking_request
     \<Rightarrow> booking_row" where
  "new_booking bookingId p r customerId status s e body =
     \<lparr>b_id = bookingId, b_property_id = Some p, b_room_id = Some r,
      b_customer_id = Some customerId, b_status = status,
      b_start_date = s, b_end_date = e,
      b_total_amount = (if truthy_num (total_amount body) then total_amount body else None),
      b_currency = (if truthy (currency body) then currency body else Some ''USD'')\<rparr>"

text \<open>
  What the \<open>try\<close> block does: it returns a reply, with the tables as they then are, or it
  throws. The statements between \<open>BEGIN\<close> and \<open>COMMIT\<close> work on the tables of the
  transaction, which replace the stored ones when \<open>COMMIT\<close> succeeds; after \<open>ROLLBACK\<close>
  the stored tables are the ones before \<open>BEGIN\<close>. The two identifiers are the values
  \<open>uuidv4()\<close> returns for the customer and for the booking, canonical texts that the
  database stores as they are. The conflict query reads \<open>room_id\<close>, \<open>start_date\<close> and
  \<open>end_date\<close>; the \<open>INSERT\<close> of the booking reads \<open>property_id\<close> and the customer's id
  as well.
\<close>

datatype 'a attempt = Returned 'a | Thrown

definition try_block ::
  "postgres \<Rightarrow> (stmt \<Rightarrow> bool) \<Rightarrow> uuid \<Rightarrow> uuid \<Rightarrow> database \<Rightarrow> booking_request
     \<Rightarrow> (reply \<times> database) attempt" where
  "try_block pg throws uuid1 uuid2 db body =
     (if throws BEGIN then Thrown
      else if throws LOCK then Thrown
      else if throws SELECT_conflicts then Thrown
      else
        case uuid_in pg (str (room_id body)) of None \<Rightarrow> Thrown | Some r \<Rightarrow>
        case date_in pg (str (start_date body)) of None \<Rightarrow> Thrown | Some s \<Rightarrow>
        case date_in pg (str (end_date body)) of None \<Rightarrow> Thrown | Some e \<Rightarrow>
          if select_conflicts db r s e \<noteq> []
          then (if throws ROLLBACK then Thrown
                else Returned (Conflict ''room not available for given dates'', db))
          else
            case customer body of
              None \<Rightarrow> Thrown
            | Some c \<Rightarrow>
                if falsy (cust_id c) \<and> throws INSERT_customer then Thrown
                else
                  let tx = (if falsy (cust_id c)
                            then db\<lparr>customers := customers db @ [new_customer uuid1 c]\<rparr>
                            else db);
                      customerId = (if falsy (cust_id c) then Some uuid1
                                    else uuid_in pg (str (cust_id c)));
                      bookingId = uuid2;
                      status = (if truthy_flag (hold body) then ''hold'' else ''confirmed'')
                  in if throws INSERT_booking then Thrown
                     else
                       case uuid_in pg (str (property_id body)) of None \<Rightarrow> Thrown | Some p \<Rightarrow>
                       case customerId of None \<Rightarrow> Thrown | Some k \<Rightarrow>
                         if throws COMMIT then Thrown
                         else Returned
                                (Created bookingId status,
                                 tx\<lparr>bookings :=
                                      bookings tx
                                      @ [new_booking bookingId p r k status s e body]\<rparr>))"

text \<open>
  The handler, server.ts lines 71-133: its reply and the stored tables after it. The
  \<open>catch\<close> clause rolls the transaction back and replies 500; a connection that cannot
  be taken from the pool fails the request before any statement is sent.
\<close>

definition post_bookings ::
  "postgres \<Rightarrow> (stmt \<Rightarrow> bool) \<Rightarrow> uuid \<Rightarrow> uuid \<Rightarrow> database \<Rightarrow> booking_request
     \<Rightarrow> reply \<times> database" where
  "post_bookings pg throws uuid1 uuid2 db body =
     (if falsy (property_id body) \<or> falsy (room_id body)
         \<or> falsy (start_date body) \<or> falsy (end_date body)
         \<or> customer body = None
      then (BadRequest ''missing fields'', db)
      else if \<not> (str (start_date body) < str (end_date body))
      then (BadRequest ''start_date must be before end_date'', db)
      else if throws CONNECT then (InternalError, db)
      else
        case try_block pg throws uuid1 uuid2 db body of
          Returned res \<Rightarrow> res
        | Thrown \<Rightarrow> (InternalError, db))"

section \<open>The invariant of the bookings\<close>

text \<open>
  The active bookings of a room, when two stored bookings overlap (their half-open
  intervals of dates intersect: \<open>a1 < b2\<close> and \<open>a2 > b1\<close>), and what it is for a list of
  bookings to be pairwise non-overlapping: every booking against every later one.
\<close>

definition active_bookings_of :: "uuid \<Rightarrow> booking_row list \<Rightarrow> booking_row list" where
  "active_bookings_of r bs = filter (\<lambda>b. b_room_id b = Some r \<and> active b) bs"

definition overlap :: "booking_row \<Rightarrow> booking_row \<Rightarrow> bool" where
  "overlap b c = (b_start_date b < b_end_date c \<and> b_end_date b > b_start_date c)"

fun non_overlapping :: "booking_row list \<Rightarrow> bool" where
  "non_overlapping [] = True"
| "non_overlapping (b # bs) = ((\<forall>c \<in> set bs. \<not> overlap b c) \<and> non_overlapping bs)"

text \<open>The reply of a committed admission is the 201 one; every other reply is a failure.\<close>

definition is_created :: "reply \<Rightarrow> bool" where
  "is_created rep = (case rep of Created _ _ \<Rightarrow> True | _ \<Rightarrow> False)"

section \<open>Dates written in the ISO form\<close>

text \<open>
  The text \<open>YYYY-MM-DD\<close> of a date: four digits of year, two of month, two of day.
  \<open>iso_range\<close> holds of the dates that have such a text.
\<close>

definition digit_char :: "nat \<Rightarrow> char" where
  "digit_char n = ''0123456789'' ! n"

definition pad2 :: "nat \<Rightarrow> string" where
  "pad2 n = [digit_char (n div 10), digit_char (n mod 10)]"

definition pad4 :: "nat \<Rightarrow> string" where
  "pad4 n = pad2 (n div 100) @ pad2 (n mod 100)"

definition iso_text :: "pg_date \<Rightarrow> string" where
  "iso_text ymd = (case ymd of (y, m, d) \<Rightarrow> pad4 y @ ''-'' @ pad2 m @ ''-'' @ pad2 d)"

definition iso_range :: "pg_date \<Rightarrow> bool" where
  "iso_range ymd = (case ymd of (y, m, d) \<Rightarrow> y < 10000 \<and> m < 100 \<and> d < 100)"

section \<open>A scenario\<close>

text \<open>
  A database for the scenario. It reads an identifier written in the hyphenated form
  8-4-4-4-12 of hexadecimal digits, in either case, and a date written as year, month
  and day separated by hyphens, with four digits of year and one or two digits of month
  and of day, when that day exists; PostgreSQL reads these texts so. It rejects every
  other text (PostgreSQL reads further forms, which the scenario does not use).
\<close>

definition is_digit :: "char \<Rightarrow> bool" where
  "is_digit c = (CHR ''0'' \<le> c \<and> c \<le> CHR ''9'')"

definition digit_value :: "char \<Rightarrow> nat" where
  "digit_value c = of_char c - 48"

fun decimal :: "nat \<Rightarrow> string \<Rightarrow> nat" where
  "decimal acc [] = acc"
| "decimal acc (c # cs) = decimal (10 * acc + digit_value c) cs"

definition leap_year :: "nat \<Rightarrow> bool" where
  "leap_year y = (y mod 4 = 0 \<and> (y mod 400 = 0 \<or> y mod 100 \<noteq> 0))"

definition days_in_month :: "nat \<Rightarrow> nat \<Rightarrow> nat" where
  "days_in_month y m =
     (if m = 2 then (if leap_year y then 29 else 28)
      else if m = 4 \<or> m = 6 \<or> m = 9 \<or> m = 11 then 30 else 31)"

definition valid_date :: "pg_date \<Rightarrow> bool" where
  "valid_date ymd =
     (case ymd of (y, m, d) \<Rightarrow>
        1 \<le> y \<and> 1 \<le> m \<and> m \<le> 12 \<and> 1 \<le> d \<and> d \<le> days_in_month y m)"

definition date_in_ymd :: "string \<Rightarrow> pg_date option" where
  "date_in_ymd x =
     (let y = takeWhile (\<lambda>c. c \<noteq> CHR ''-'') x;
          r = drop 1 (dropWhile (\<lambda>c. c \<noteq> CHR ''-'') x);
          m = takeWhile (\<lambda>c. c \<noteq> CHR ''-'') r;
          d = drop 1 (dropWhile (\<lambda>c. c \<noteq> CHR ''-'') r)
      in if length y = 4 \<and> (length m = 1 \<or> length m = 2) \<and> (length d = 1 \<or> length d = 2)
            \<and> list_all is_digit (y @ m @ d)
            \<and> valid_date (decimal 0 y, decimal 0 m, decimal 0 d)
         then Some (decimal 0 y, decimal 0 m, decimal 0 d) else None)"

definition is_hex :: "char \<Rightarrow> bool" where
  "is_hex c =
     (is_digit c \<or> (CHR ''a'' \<le> c \<and> c \<le> CHR ''f'') \<or> (CHR ''A'' \<le> c \<and> c \<le> CHR ''F''))"

definition to_lower :: "char \<Rightarrow> char" where
  "to_lower c =
     (if c = CHR ''A'' then CHR ''a'' else if c = CHR ''B'' then CHR ''b''
      else if c = CHR ''C'' then CHR ''c'' else if c = CHR ''D'' then CHR ''d''
      else if c = CHR ''E'' then CHR ''e'' else if c = CHR ''F'' then CHR ''f'' else c)"

definition uuid_in_hyphenated :: "string \<Rightarrow> uuid option" where
  "uuid_in_hyphenated x =
     (if length x = 36
         \<and> [x ! 8, x ! 13, x ! 18, x ! 23] = ''----''
         \<and> list_all is_hex
             (take 8 x @ take 4 (drop 9 x) @ take 4 (drop 14 x) @ take 4 (drop 19 x)
              @ drop 24 x)
      then Some (map to_lower x) else None)"

definition scenario_pg :: postgres where
  "scenario_pg = \<lparr>uuid_in = uuid_in_hyphenated, date_in = date_in_ymd\<rparr>"

text \<open>
  Room R of property P1 has one confirmed booking, \<open>[2025-09-10, 2025-09-12)\<close>, made
  by a stored guest K; P2 is another property. Requests carry a new guest inline; no
  statement throws. \<open>uuid_c1\<close>, \<open>uuid_b1\<close>, \<open>uuid_c2\<close> and \<open>uuid_b2\<close> are identifiers
  the generator returns.
\<close>

definition no_failure :: "stmt \<Rightarrow> bool" where
  "no_failure q = False"

definition property_P1 :: uuid where
  "property_P1 = ''11111111-1111-4111-8111-111111111111''"

definition property_P2 :: uuid where
  "property_P2 = ''22222222-2222-4222-8222-222222222222''"

definition room_R_id :: uuid where
  "room_R_id = ''aaaaaaaa-aaaa-4aaa-8aaa-aaaaaaaaaaaa''"

definition guest_K_id :: uuid where
  "guest_K_id = ''cccccccc-cccc-4ccc-8ccc-ccccccccccc0''"

definition uuid_c1 :: uuid where
  "uuid_c1 = ''cccccccc-cccc-4ccc-8ccc-ccccccccccc1''"

definition uuid_c2 :: uuid where
  "uuid_c2 = ''cccccccc-cccc-4ccc-8ccc-ccccccccccc2''"

definition uuid_b1 :: uuid where
  "uuid_b1 = ''bbbbbbbb-bbbb-4bbb-8bbb-bbbbbbbbbbb1''"

definition uuid_b2 :: uuid where
  "uuid_b2 = ''bbbbbbbb-bbbb-4bbb-8bbb-bbbbbbbbbbb2''"

definition room_R :: room_row where
  "room_R = \<lparr>r_id = room_R_id, r_property_id = Some property_P1, r_room_number = ''101'',
             r_room_type = Some ''double''\<rparr>"

definition guest_K :: customer_row where
  "guest_K = \<lparr>c_id = guest_K_id, c_first_name = Some ''Ada'', c_last_name = None,
              c_email = None, c_phone = None, c_metadata = ''{}''\<rparr>"

definition booking_B0 :: booking_row where
  "booking_B0 = \<lparr>b_id = ''bbbbbbbb-bbbb-4bbb-8bbb-bbbbbbbbbbb0'',
                 b_property_id = Some property_P1, b_room_id = Some room_R_id,
                 b_customer_id = Some guest_K_id, b_status = ''confirmed'',
                 b_start_date = (2025, 9, 10), b_end_date = (2025, 9, 12),
                 b_total_amount = None, b_currency = Some ''USD''\<rparr>"

definition scenario_db :: database where
  "scenario_db = \<lparr>rooms = [room_R], customers = [guest_K], bookings = [booking_B0]\<rparr>"

definition guest_input :: customer_input where
  "guest_input = \<lparr>cust_id = None, first_name = Some ''Grace'', last_name = None,
                  email = None, phone = None, metadata = None\<rparr>"

definition request :: "string \<Rightarrow> string \<Rightarrow> string \<Rightarrow> string \<Rightarrow> booking_request" where
  "request p r s e =
     \<lparr>property_id = Some p, room_id = Some r, customer = Some guest_input,
      start_date = Some s, end_date = Some e, hold = None, total_amount = None,
      currency = None\<rparr>"

text \<open>
  A guest already stored, named by the upper-case text of the identifier, and a storage
  layer whose booking \<open>INSERT\<close> throws.
\<close>

definition returning_guest :: customer_input where
  "returning_guest = \<lparr>cust_id = Some ''CCCCCCCC-CCCC-4CCC-8CCC-CCCCCCCCCCC0'',
                      first_name = None, last_name = None,
                      email = None, phone = None, metadata = None\<rparr>"

definition booking_insert_fails :: "stmt \<Rightarrow> bool" where
  "booking_insert_fails q = (q = INSERT_booking)"

section \<open>Admissions one after another\<close>

text \<open>
  The advisory lock of \<open>POST /bookings\<close> orders the admissions of one room. Below,
  \<open>admit_serially\<close> runs a list of requests in order, each with the two identifiers
  generated for it, on a storage layer where no statement throws. \<open>window\<close> is the
  window of a request as the database reads it; \<open>valid_for pg r\<close> says that a request
  passes the validation of the handler, that the database reads its identifiers and its
  dates, and that it names room \<open>r\<close>; \<open>room_free\<close> says that the conflict query finds
  nothing for its window.
\<close>

definition window :: "postgres \<Rightarrow> booking_request \<Rightarrow> (pg_date \<times> pg_date) option" where
  "window pg body =
     (case date_in pg (str (start_date body)) of
        None \<Rightarrow> None
      | Some s \<Rightarrow>
          (case date_in pg (str (end_date body)) of None \<Rightarrow> None | Some e \<Rightarrow> Some (s, e)))"

definition valid_for :: "postgres \<Rightarrow> uuid \<Rightarrow> booking_request \<Rightarrow> bool" where
  "valid_for pg r body =
     (truthy (property_id body) \<and> truthy (room_id body)
      \<and> truthy (start_date body) \<and> str (start_date body) < str (end_date body)
      \<and> uuid_in pg (str (room_id body)) = Some r
      \<and> uuid_in pg (str (property_id body)) \<noteq> None
      \<and> window pg body \<noteq> None
      \<and> (case customer body of
            None \<Rightarrow> False
          | Some c \<Rightarrow> falsy (cust_id c) \<or> uuid_in pg (str (cust_id c)) \<noteq> None))"

definition windows_overlap :: "postgres \<Rightarrow> booking_request \<Rightarrow> booking_request \<Rightarrow> bool" where
  "windows_overlap pg x y =
     (case window pg x of
        None \<Rightarrow> False
      | Some (a1, a2) \<Rightarrow>
          (case window pg y of None \<Rightarrow> False | Some (b1, b2) \<Rightarrow> a1 < b2 \<and> a2 > b1))"

definition room_free :: "postgres \<Rightarrow> database \<Rightarrow> uuid \<Rightarrow> booking_request \<Rightarrow> bool" where
  "room_free pg db r body =
     (case window pg body of
        None \<Rightarrow> False
      | Some (s, e) \<Rightarrow> select_conflicts db r s e = [])"

fun admit_serially ::
  "postgres \<Rightarrow> database \<Rightarrow> (uuid \<times> uuid \<times> booking_request) list
     \<Rightarrow> reply list \<times> database" where
  "admit_serially pg db [] = ([], db)"
| "admit_serially pg db ((uuid1, uuid2, body) # rest) =
     (let (rep, db') = post_bookings pg no_failure uuid1 uuid2 db body;
          (reps, db'') = admit_serially pg db' rest
      in (rep # reps, db''))"

section \<open>Facts about the handlers\<close>

lemmas scenario_defs =
  room_R_def guest_K_def booking_B0_def scenario_db_def guest_input_def request_def
  no_failure_def property_P1_def property_P2_def room_R_id_def guest_K_id_def
  uuid_c1_def uuid_c2_def uuid_b1_def uuid_b2_def scenario_pg_def

lemmas input_defs =
  date_in_ymd_def is_digit_def digit_value_def valid_date_def days_in_month_def
  leap_year_def uuid_in_hyphenated_def is_hex_def to_lower_def

lemmas handler_defs =
  post_bookings_def try_block_def select_conflicts_def new_booking_def new_customer_def
  get_availability_def select_rooms_def select_bookings_def truthy_property_def
  object_prototype_def
  sql_window_filter_def active_def falsy_def truthy_def truthy_num_def truthy_flag_def
  str_def js_key_def Let_def

section \<open>The admission transaction\<close>

lemma non_overlapping_snoc:
  "non_overlapping (bs @ [n]) = (non_overlapping bs \<and> (\<forall>b \<in> set bs. \<not> overlap b n))"
  by (induction bs) auto

lemma try_block_Returned:
  assumes "try_block pg throws uuid1 uuid2 db body = Returned (rep, db')"
  shows "\<exists>r s e. uuid_in pg (str (room_id body)) = Some r
      \<and> date_in pg (str (start_date body)) = Some s
      \<and> date_in pg (str (end_date body)) = Some e
      \<and> ((rep = Conflict ''room not available for given dates'' \<and> db' = db
           \<and> select_conflicts db r s e \<noteq> [])
         \<or> (\<exists>c p k. customer body = Some c
              \<and> uuid_in pg (str (property_id body)) = Some p
              \<and> (if falsy (cust_id c) then Some uuid1 else uuid_in pg (str (cust_id c)))
                  = Some k
              \<and> select_conflicts db r s e = []
              \<and> rep = Created uuid2 (if truthy_flag (hold body) then ''hold'' else ''confirmed'')
              \<and> db' = (if falsy (cust_id c)
                        then db\<lparr>customers := customers db @ [new_customer uuid1 c]\<rparr> else db)
                       \<lparr>bookings := bookings db @
                          [new_booking uuid2 p r k
                             (if truthy_flag (hold body) then ''hold'' else ''confirmed'')
                             s e body]\<rparr>))"
proof -
  let ?st = "if truthy_flag (hold body) then ''hold'' else ''confirmed''"
  from assms obtain r where r: "uuid_in pg (str (room_id body)) = Some r"
    by (auto simp: try_block_def split: if_splits option.splits)
  from assms obtain s where s: "date_in pg (str (start_date body)) = Some s"
    by (auto simp: try_block_def split: if_splits option.splits)
  from assms obtain e where e: "date_in pg (str (end_date body)) = Some e"
    by (auto simp: try_block_def split: if_splits option.splits)
  show ?thesis
  proof (cases "select_conflicts db r s e = []")
    case False
    with assms have "rep = Conflict ''room not available for given dates'' \<and> db' = db"
      by (auto simp: try_block_def r s e split: if_splits)
    with False r s e show ?thesis by blast
  next
    case True
    with assms obtain c where c: "customer body = Some c"
      by (auto simp: try_block_def r s e split: if_splits option.splits)
    from assms True obtain p where p: "uuid_in pg (str (property_id body)) = Some p"
      by (auto simp: try_block_def r s e c Let_def split: if_splits option.splits)
    from assms True obtain k where
      k: "(if falsy (cust_id c) then Some uuid1 else uuid_in pg (str (cust_id c))) = Some k"
      by (auto simp: try_block_def r s e c p Let_def split: if_splits option.splits)
    from assms True k have "rep = Created uuid2 ?st
        \<and> db' = (if falsy (cust_id c)
                  then db\<lparr>customers := customers db @ [new_customer uuid1 c]\<rparr> else db)
                 \<lparr>bookings := bookings db @ [new_booking uuid2 p r k ?st s e body]\<rparr>"
      by (auto simp: try_block_def r s e c p Let_def split: if_splits)
    with True r s e c p k show ?thesis by blast
  qed
qed

lemma post_bookings_unchanged:
  assumes "\<not> is_created (fst (post_bookings pg throws uuid1 uuid2 db body))"
  shows "snd (post_bookings pg throws uuid1 uuid2 db body) = db"
proof (cases "try_block pg throws uuid1 uuid2 db body")
  case Thrown
  then show ?thesis by (simp add: post_bookings_def)
next
  case (Returned res)
  obtain rep db' where res: "res = (rep, db')" by (cases res)
  from try_block_Returned [OF Returned [unfolded res]] assms Returned res
  show ?thesis
    by (auto simp: post_bookings_def is_created_def split: if_splits)
qed

lemma post_bookings_committed:
  assumes "is_created (fst (post_bookings pg throws uuid1 uuid2 db body))"
  shows "\<exists>c p r k s e. customer body = Some c
      \<and> truthy (property_id body) \<and> truthy (room_id body)
      \<and> truthy (start_date body) \<and> truthy (end_date body)
      \<and> str (start_date body) < str (end_date body)
      \<and> uuid_in pg (str (property_id body)) = Some p
      \<and> uuid_in pg (str (room_id body)) = Some r
      \<and> (if falsy (cust_id c) then Some uuid1 else uuid_in pg (str (cust_id c))) = Some k
      \<and> date_in pg (str (start_date body)) = Some s
      \<and> date_in pg (str (end_date body)) = Some e
      \<and> select_conflicts db r s e = []
      \<and> fst (post_bookings pg throws uuid1 uuid2 db body) =
          Created uuid2 (if truthy_flag (hold body) then ''hold'' else ''confirmed'')
      \<and> snd (post_bookings pg throws uuid1 uuid2 db body) =
          (if falsy (cust_id c)
           then db\<lparr>customers := customers db @ [new_customer uuid1 c]\<rparr> else db)
          \<lparr>bookings := bookings db @
             [new_booking uuid2 p r k
                (if truthy_flag (hold body) then ''hold'' else ''confirmed'') s e body]\<rparr>"
proof (cases "try_block pg throws uuid1 uuid2 db body")
  case Thrown
  with assms show ?thesis by (simp add: post_bookings_def is_created_def split: if_splits)
next
  case (Returned res)
  obtain rep db' where res: "res = (rep, db')" by (cases res)
  from assms have fields: "truthy (property_id body)" "truthy (room_id body)"
    "truthy (start_date body)" "truthy (end_date body)"
    "str (start_date body) < str (end_date body)" "\<not> throws CONNECT"
    by (auto simp: post_bookings_def is_created_def falsy_def split: if_splits)
  with Returned res have out: "post_bookings pg throws uuid1 uuid2 db body = (rep, db')"
    using assms by (auto simp: post_bookings_def is_created_def falsy_def split: if_splits)
  with assms have created: "is_created rep" by simp
  from try_block_Returned [OF Returned [unfolded res]] created
  obtain r s e c p k where
    "uuid_in pg (str (room_id body)) = Some r"
    "date_in pg (str (start_date body)) = Some s"
    "date_in pg (str (end_date body)) = Some e"
    "customer body = Some c"
    "uuid_in pg (str (property_id body)) = Some p"
    "(if falsy (cust_id c) then Some uuid1 else uuid_in pg (str (cust_id c))) = Some k"
    "select_conflicts db r s e = []"
    "rep = Created uuid2 (if truthy_flag (hold body) then ''hold'' else ''confirmed'')"
    "db' = (if falsy (cust_id c)
            then db\<lparr>customers := customers db @ [new_customer uuid1 c]\<rparr> else db)
           \<lparr>bookings := bookings db @
              [new_booking uuid2 p r k
                 (if truthy_flag (hold body) then ''hold'' else ''confirmed'') s e body]\<rparr>"
    by (auto simp: is_created_def)
  with fields out show ?thesis by simp
qed

lemma select_conflicts_empty:
  "select_conflicts db r s e = [] \<longleftrightarrow>
     (\<forall>b \<in> set (bookings db).
        \<not> (b_room_id b = Some r \<and> active b \<and> b_start_date b < e \<and> b_end_date b > s))"
  by (auto simp: select_conflicts_def filter_empty_conv sql_window_filter_def)

text \<open>
  C1. For every room, the admission preserves the invariant that the active bookings
  (status hold or confirmed) of the room are pairwise non-overlapping: if it holds of the
  stored bookings before \<open>POST /bookings\<close>, it holds of the stored bookings after it,
  whatever the request, whatever the reply and whichever statements throw.
\<close>

theorem admission_preserves_non_overlap:
  assumes "non_overlapping (active_bookings_of r (bookings db))"
  shows "non_overlapping
           (active_bookings_of r
              (bookings (snd (post_bookings pg throws uuid1 uuid2 db body))))"
proof (cases "is_created (fst (post_bookings pg throws uuid1 uuid2 db body))")
  case False
  then show ?thesis using assms by (simp add: post_bookings_unchanged)
next
  case True
  let ?st = "if truthy_flag (hold body) then ''hold'' else ''confirmed''"
  from post_bookings_committed [OF True] obtain c p r' k s e where
    free: "select_conflicts db r' s e = []" and
    after: "snd (post_bookings pg throws uuid1 uuid2 db body) =
          (if falsy (cust_id c)
           then db\<lparr>customers := customers db @ [new_customer uuid1 c]\<rparr> else db)
          \<lparr>bookings := bookings db @ [new_booking uuid2 p r' k ?st s e body]\<rparr>"
    by blast
  define n where "n = new_booking uuid2 p r' k ?st s e body"
  have bs: "bookings (snd (post_bookings pg throws uuid1 uuid2 db body)) = bookings db @ [n]"
    by (simp add: after n_def)
  have n_room: "b_room_id n = Some r'"
    by (simp add: n_def new_booking_def)
  have n_dates: "b_start_date n = s" "b_end_date n = e"
    by (simp_all add: n_def new_booking_def)
  show ?thesis
  proof (cases "b_room_id n = Some r \<and> active n")
    case False
    then show ?thesis using assms by (auto simp: bs active_bookings_of_def)
  next
    case True
    with n_room have r: "r' = r" by simp
    have "\<not> overlap b n" if "b \<in> set (active_bookings_of r (bookings db))" for b
      using that free [unfolded select_conflicts_empty r]
      by (auto simp: active_bookings_of_def overlap_def n_dates)
    with True assms show ?thesis
      by (simp add: bs active_bookings_of_def non_overlapping_snoc)
  qed
qed

theorem admission_preserves_non_overlap_witness:
  "non_overlapping (active_bookings_of room_R_id (bookings scenario_db))
   \<and> non_overlapping (active_bookings_of room_R_id (bookings (snd
         (post_bookings scenario_pg no_failure uuid_c1 uuid_b1 scenario_db
            (request property_P1 room_R_id ''2025-09-12'' ''2025-09-14'')))))
   \<and> length (active_bookings_of room_R_id (bookings (snd
         (post_bookings scenario_pg no_failure uuid_c1 uuid_b1 scenario_db
            (request property_P1 room_R_id ''2025-09-12'' ''2025-09-14''))))) = 2"
proof -
  have before: "non_overlapping (active_bookings_of room_R_id (bookings scenario_db))"
    by (simp add: active_bookings_of_def active_def scenario_defs)
  have two: "length (active_bookings_of room_R_id (bookings (snd
         (post_bookings scenario_pg no_failure uuid_c1 uuid_b1 scenario_db
            (request property_P1 room_R_id ''2025-09-12'' ''2025-09-14''))))) = 2"
    by (simp add: active_bookings_of_def handler_defs scenario_defs input_defs)
  from admission_preserves_non_overlap [OF before] before two show ?thesis
    by blast
qed

text \<open>
  C3. For a request with all required fields present (truthy) and
  \<open>start_date < end_date\<close>, when no statement throws and the database reads the
  identifiers and the dates of the request: the admission replies 409 (room not
  available) and stores nothing if some stored booking of the requested room with status
  hold or confirmed overlaps the requested window, read as dates (\<open>a1 < b2\<close> and
  \<open>a2 > b1\<close>); otherwise it replies 201 and the stored tables are the former ones with
  the new booking, and the new customer when the request named none, added.
\<close>

theorem admission_rejects_iff_conflict:
  assumes "property_id body = Some p" and "p \<noteq> []"
    and "room_id body = Some r" and "r \<noteq> []"
    and "start_date body = Some s" and "s \<noteq> []"
    and "end_date body = Some e" and "s < e"
    and "customer body = Some c"
    and "\<forall>q. \<not> throws q"
    and "uuid_in pg p = Some pid" and "uuid_in pg r = Some rid"
    and "date_in pg s = Some ds" and "date_in pg e = Some de"
    and "(if falsy (cust_id c) then Some uuid1 else uuid_in pg (str (cust_id c))) = Some cid"
  shows "post_bookings pg throws uuid1 uuid2 db body =
    (if \<exists>b \<in> set (bookings db).
          b_room_id b = Some rid \<and> active b
          \<and> b_start_date b < de \<and> b_end_date b > ds
     then (Conflict ''room not available for given dates'', db)
     else (Created uuid2 (if hold body = Some True then ''hold'' else ''confirmed''),
           (if falsy (cust_id c)
            then db\<lparr>customers := customers db @ [new_customer uuid1 c]\<rparr> else db)
           \<lparr>bookings := bookings db @
              [new_booking uuid2 pid rid cid
                 (if hold body = Some True then ''hold'' else ''confirmed'') ds de body]\<rparr>))"
proof -
  have e: "e \<noteq> []" using \<open>s < e\<close> by auto
  have flag: "(if truthy_flag (hold body) then ''hold'' else ''confirmed'') =
              (if hold body = Some True then ''hold'' else ''confirmed'')"
    by (cases "hold body") (simp_all add: truthy_flag_def)
  have sel: "(select_conflicts db rid ds de = []) \<longleftrightarrow>
     \<not> (\<exists>b \<in> set (bookings db). b_room_id b = Some rid \<and> active b
          \<and> b_start_date b < de \<and> b_end_date b > ds)"
    by (simp add: select_conflicts_empty)
  have fields: "\<not> falsy (property_id body)" "\<not> falsy (room_id body)"
    "\<not> falsy (start_date body)" "\<not> falsy (end_date body)"
    "str (property_id body) = p" "str (room_id body) = r"
    "str (start_date body) = s" "str (end_date body) = e"
    using assms(1-7) e by (simp_all add: falsy_def truthy_def str_def)
  have "try_block pg throws uuid1 uuid2 db body =
    Returned
     (if select_conflicts db rid ds de \<noteq> []
      then (Conflict ''room not available for given dates'', db)
      else (Created uuid2 (if truthy_flag (hold body) then ''hold'' else ''confirmed''),
           (if falsy (cust_id c)
            then db\<lparr>customers := customers db @ [new_customer uuid1 c]\<rparr> else db)
           \<lparr>bookings := bookings db @
              [new_booking uuid2 pid rid cid
                 (if truthy_flag (hold body) then ''hold'' else ''confirmed'') ds de body]\<rparr>))"
    using assms(9-15)
    by (auto simp: try_block_def fields Let_def split: if_splits)
  then have "post_bookings pg throws uuid1 uuid2 db body =
     (if select_conflicts db rid ds de \<noteq> []
      then (Conflict ''room not available for given dates'', db)
      else (Created uuid2 (if truthy_flag (hold body) then ''hold'' else ''confirmed''),
           (if falsy (cust_id c)
            then db\<lparr>customers := customers db @ [new_customer uuid1 c]\<rparr> else db)
           \<lparr>bookings := bookings db @
              [new_booking uuid2 pid rid cid
                 (if truthy_flag (hold body) then ''hold'' else ''confirmed'') ds de body]\<rparr>))"
    using assms(8-10) by (simp add: post_bookings_def fields)
  then show ?thesis
    unfolding flag sel by simp
qed

theorem admission_rejects_iff_conflict_witness:
  "post_bookings scenario_pg no_failure uuid_c1 uuid_b1 scenario_db
          (request property_P1 room_R_id ''2025-09-09'' ''2025-09-11'')
     = (Conflict ''room not available for given dates'', scenario_db)
   \<and> post_bookings scenario_pg no_failure uuid_c1 uuid_b1 scenario_db
          (request property_P1 room_R_id ''2025-09-12'' ''2025-09-14'')
     = (Created uuid_b1 ''confirmed'',
        scenario_db
          \<lparr>customers := [guest_K, new_customer uuid_c1 guest_input],
           bookings := [booking_B0,
             new_booking uuid_b1 property_P1 room_R_id uuid_c1 ''confirmed''
               (2025, 9, 12) (2025, 9, 14)
               (request property_P1 room_R_id ''2025-09-12'' ''2025-09-14'')]\<rparr>)
   \<and> fst (post_bookings scenario_pg no_failure uuid_c1 uuid_b1 scenario_db
          (request property_P1 room_R_id ''2025-09-1'' ''2025-09-2''))
     = Created uuid_b1 ''confirmed''"
proof -
  have nf: "\<forall>q. \<not> no_failure q" by (simp add: no_failure_def)
  have ids: "uuid_in scenario_pg property_P1 = Some property_P1"
    "uuid_in scenario_pg room_R_id = Some room_R_id"
    by (simp_all add: scenario_defs input_defs)
  have dates: "date_in scenario_pg ''2025-09-09'' = Some (2025, 9, 9)"
    "date_in scenario_pg ''2025-09-11'' = Some (2025, 9, 11)"
    "date_in scenario_pg ''2025-09-12'' = Some (2025, 9, 12)"
    "date_in scenario_pg ''2025-09-14'' = Some (2025, 9, 14)"
    "date_in scenario_pg ''2025-09-1'' = Some (2025, 9, 1)"
    "date_in scenario_pg ''2025-09-2'' = Some (2025, 9, 2)"
    by (simp_all add: scenario_defs input_defs Let_def)
  have guest: "(if falsy (cust_id guest_input) then Some uuid_c1
                else uuid_in scenario_pg (str (cust_id guest_input))) = Some uuid_c1"
    by (simp add: guest_input_def falsy_def truthy_def)
  have fields: "property_id (request p r s e) = Some p" "room_id (request p r s e) = Some r"
    "start_date (request p r s e) = Some s" "end_date (request p r s e) = Some e"
    "customer (request p r s e) = Some guest_input" for p r s e
    by (simp_all add: request_def)
  have nonempty: "property_P1 \<noteq> []" "room_R_id \<noteq> []"
    by (simp_all add: scenario_defs)
  note admit = admission_rejects_iff_conflict
    [where pg = scenario_pg and throws = no_failure and ?uuid1.0 = uuid_c1 and ?uuid2.0 = uuid_b1
       and db = scenario_db,
     OF fields(1) nonempty(1) fields(2) nonempty(2) fields(3) _ fields(4) _ fields(5) nf
        ids(1) ids(2) _ _ guest]
  have rejected: "post_bookings scenario_pg no_failure uuid_c1 uuid_b1 scenario_db
          (request property_P1 room_R_id ''2025-09-09'' ''2025-09-11'')
     = (Conflict ''room not available for given dates'', scenario_db)"
    using admit [OF _ _ dates(1) dates(2)]
    by (simp add: scenario_db_def booking_B0_def active_def room_R_id_def)
  have admitted: "post_bookings scenario_pg no_failure uuid_c1 uuid_b1 scenario_db
          (request property_P1 room_R_id ''2025-09-12'' ''2025-09-14'')
     = (Created uuid_b1 ''confirmed'',
        scenario_db
          \<lparr>customers := [guest_K, new_customer uuid_c1 guest_input],
           bookings := [booking_B0,
             new_booking uuid_b1 property_P1 room_R_id uuid_c1 ''confirmed''
               (2025, 9, 12) (2025, 9, 14)
               (request property_P1 room_R_id ''2025-09-12'' ''2025-09-14'')]\<rparr>)"
    using admit [OF _ _ dates(3) dates(4)]
    by (simp add: scenario_db_def booking_B0_def active_def room_R_id_def guest_input_def
        falsy_def truthy_def request_def)
  have unpadded: "fst (post_bookings scenario_pg no_failure uuid_c1 uuid_b1 scenario_db
          (request property_P1 room_R_id ''2025-09-1'' ''2025-09-2''))
     = Created uuid_b1 ''confirmed''"
    using admit [OF _ _ dates(5) dates(6)]
    by (simp add: scenario_db_def booking_B0_def active_def room_R_id_def request_def)
  from rejected admitted unpadded show ?thesis by simp
qed

lemma post_bookings_replies:
  "fst (post_bookings pg throws uuid1 uuid2 db body) \<in>
     {BadRequest ''missing fields'', BadRequest ''start_date must be before end_date'',
      Conflict ''room not available for given dates'', InternalError,
      Created uuid2 ''hold'', Created uuid2 ''confirmed''}"
proof (cases "try_block pg throws uuid1 uuid2 db body")
  case Thrown
  then show ?thesis by (simp add: post_bookings_def)
next
  case (Returned res)
  obtain rep db' where res: "res = (rep, db')" by (cases res)
  from try_block_Returned [OF Returned [unfolded res]] Returned res
  show ?thesis
    by (auto simp: post_bookings_def split: if_splits)
qed

text \<open>
  C4. On every failure path of the admission (every reply other than 201: missing
  fields, invalid range, the 409 rejection, a statement that throws), the stored tables
  after the handler are the stored tables before it: no booking row and no customer row
  is added, and the active bookings of every room are unchanged.
\<close>

theorem failed_admission_leaves_no_rows:
  assumes "\<not> is_created (fst (post_bookings pg throws uuid1 uuid2 db body))"
  shows "snd (post_bookings pg throws uuid1 uuid2 db body) = db
    \<and> customers (snd (post_bookings pg throws uuid1 uuid2 db body)) = customers db
    \<and> bookings (snd (post_bookings pg throws uuid1 uuid2 db body)) = bookings db
    \<and> active_bookings_of r (bookings (snd (post_bookings pg throws uuid1 uuid2 db body)))
        = active_bookings_of r (bookings db)"
  using post_bookings_unchanged [OF assms] by simp

theorem failed_admission_leaves_no_rows_witness:
  "fst (post_bookings scenario_pg booking_insert_fails uuid_c1 uuid_b1 scenario_db
          (request property_P1 room_R_id ''2025-09-12'' ''2025-09-14'')) = InternalError
   \<and> snd (post_bookings scenario_pg booking_insert_fails uuid_c1 uuid_b1 scenario_db
          (request property_P1 room_R_id ''2025-09-12'' ''2025-09-14'')) = scenario_db
   \<and> fst (post_bookings scenario_pg no_failure uuid_c1 uuid_b1 scenario_db
          (request property_P1 room_R_id ''2025-09-09'' ''2025-09-11''))
       = Conflict ''room not available for given dates''
   \<and> active_bookings_of room_R_id
        (bookings (snd (post_bookings scenario_pg no_failure uuid_c1 uuid_b1 scenario_db
          (request property_P1 room_R_id ''2025-09-09'' ''2025-09-11''))))
       = active_bookings_of room_R_id (bookings scenario_db)"
proof -
  have storage: "fst (post_bookings scenario_pg booking_insert_fails uuid_c1 uuid_b1 scenario_db
          (request property_P1 room_R_id ''2025-09-12'' ''2025-09-14'')) = InternalError"
    by (simp add: handler_defs scenario_defs input_defs booking_insert_fails_def)
  have rejected: "fst (post_bookings scenario_pg no_failure uuid_c1 uuid_b1 scenario_db
          (request property_P1 room_R_id ''2025-09-09'' ''2025-09-11''))
       = Conflict ''room not available for given dates''"
    by (simp add: handler_defs scenario_defs input_defs)
  have "\<not> is_created (fst (post_bookings scenario_pg booking_insert_fails uuid_c1 uuid_b1
          scenario_db (request property_P1 room_R_id ''2025-09-12'' ''2025-09-14'')))"
    by (simp add: storage is_created_def)
  note a = failed_admission_leaves_no_rows [OF this]
  have "\<not> is_created (fst (post_bookings scenario_pg no_failure uuid_c1 uuid_b1 scenario_db
          (request property_P1 room_R_id ''2025-09-09'' ''2025-09-11'')))"
    by (simp add: rejected is_created_def)
  note b = failed_admission_leaves_no_rows [OF this, of room_R_id]
  from a b storage rejected show ?thesis by blast
qed

text \<open>
  C9. On every successful admission the reply is 201 with the identifier generated for
  the booking and its status; the booking is the one row added to \<open>bookings\<close>, with
  status hold when the \<open>hold\<close> flag is true and confirmed otherwise (also when the flag
  is absent); and a customer row is added if and only if the request carries no
  (truthy) customer id, the booking then referring to the new customer, and otherwise to
  the customer the database reads from the id of the request.
\<close>

theorem successful_admission_result:
  assumes "is_created (fst (post_bookings pg throws uuid1 uuid2 db body))"
    and "customer body = Some c"
  shows "fst (post_bookings pg throws uuid1 uuid2 db body)
           = Created uuid2 (if hold body = Some True then ''hold'' else ''confirmed'')
    \<and> length (bookings (snd (post_bookings pg throws uuid1 uuid2 db body)))
           = Suc (length (bookings db))
    \<and> butlast (bookings (snd (post_bookings pg throws uuid1 uuid2 db body))) = bookings db
    \<and> b_id (last (bookings (snd (post_bookings pg throws uuid1 uuid2 db body)))) = uuid2
    \<and> b_status (last (bookings (snd (post_bookings pg throws uuid1 uuid2 db body))))
           = (if hold body = Some True then ''hold'' else ''confirmed'')
    \<and> customers (snd (post_bookings pg throws uuid1 uuid2 db body))
           = (if truthy (cust_id c) then customers db
              else customers db @ [new_customer uuid1 c])
    \<and> b_customer_id (last (bookings (snd (post_bookings pg throws uuid1 uuid2 db body))))
           = (if truthy (cust_id c) then uuid_in pg (str (cust_id c)) else Some uuid1)"
proof -
  have flag: "(if truthy_flag (hold body) then ''hold'' else ''confirmed'') =
              (if hold body = Some True then ''hold'' else ''confirmed'')"
    by (cases "hold body") (simp_all add: truthy_flag_def)
  from post_bookings_committed [OF assms(1)] assms(2) obtain p r k s e where
    k: "(if falsy (cust_id c) then Some uuid1 else uuid_in pg (str (cust_id c))) = Some k"
    and rep: "fst (post_bookings pg throws uuid1 uuid2 db body) =
          Created uuid2 (if truthy_flag (hold body) then ''hold'' else ''confirmed'')"
    and after: "snd (post_bookings pg throws uuid1 uuid2 db body) =
          (if falsy (cust_id c)
           then db\<lparr>customers := customers db @ [new_customer uuid1 c]\<rparr> else db)
          \<lparr>bookings := bookings db @
             [new_booking uuid2 p r k
                (if truthy_flag (hold body) then ''hold'' else ''confirmed'') s e body]\<rparr>"
    by auto
  from k have "(if truthy (cust_id c) then uuid_in pg (str (cust_id c)) else Some uuid1) = Some k"
    by (simp add: falsy_def split: if_splits)
  then show ?thesis
    unfolding after rep flag
    by (simp add: new_booking_def falsy_def)
qed

theorem successful_admission_result_witness:
  "fst (post_bookings scenario_pg no_failure uuid_c1 uuid_b1 scenario_db
          (request property_P1 room_R_id ''2025-09-12'' ''2025-09-14''))
     = Created uuid_b1 ''confirmed''
   \<and> customers (snd (post_bookings scenario_pg no_failure uuid_c1 uuid_b1 scenario_db
          (request property_P1 room_R_id ''2025-09-12'' ''2025-09-14'')))
     = [guest_K, new_customer uuid_c1 guest_input]
   \<and> fst (post_bookings scenario_pg no_failure uuid_c1 uuid_b1 scenario_db
          ((request property_P1 room_R_id ''2025-09-12'' ''2025-09-14'')
             \<lparr>customer := Some returning_guest, hold := Some True\<rparr>))
     = Created uuid_b1 ''hold''
   \<and> customers (snd (post_bookings scenario_pg no_failure uuid_c1 uuid_b1 scenario_db
          ((request property_P1 room_R_id ''2025-09-12'' ''2025-09-14'')
             \<lparr>customer := Some returning_guest, hold := Some True\<rparr>)))
     = [guest_K]
   \<and> b_customer_id (last (bookings (snd
          (post_bookings scenario_pg no_failure uuid_c1 uuid_b1 scenario_db
             ((request property_P1 room_R_id ''2025-09-12'' ''2025-09-14'')
                \<lparr>customer := Some returning_guest, hold := Some True\<rparr>)))))
     = Some guest_K_id"
proof -
  have new: "is_created (fst (post_bookings scenario_pg no_failure uuid_c1 uuid_b1 scenario_db
          (request property_P1 room_R_id ''2025-09-12'' ''2025-09-14'')))"
    by (simp add: handler_defs scenario_defs input_defs is_created_def)
  have known: "is_created (fst (post_bookings scenario_pg no_failure uuid_c1 uuid_b1 scenario_db
          ((request property_P1 room_R_id ''2025-09-12'' ''2025-09-14'')
             \<lparr>customer := Some returning_guest, hold := Some True\<rparr>)))"
    by (simp add: handler_defs scenario_defs input_defs is_created_def returning_guest_def)
  have c1: "customer (request property_P1 room_R_id ''2025-09-12'' ''2025-09-14'')
              = Some guest_input"
    by (simp add: request_def)
  have c2: "customer ((request property_P1 room_R_id ''2025-09-12'' ''2025-09-14'')
             \<lparr>customer := Some returning_guest, hold := Some True\<rparr>) = Some returning_guest"
    by simp
  have reads: "uuid_in scenario_pg (str (cust_id returning_guest)) = Some guest_K_id"
    by (simp add: returning_guest_def str_def scenario_defs input_defs)
  from successful_admission_result [OF new c1] successful_admission_result [OF known c2]
  show ?thesis
    by (simp add: reads)
       (simp add: request_def guest_input_def returning_guest_def scenario_db_def
        truthy_def)
qed

lemma admitted_money_fields:
  assumes "is_created (fst (post_bookings pg throws uuid1 uuid2 db body))"
  shows "b_total_amount (last (bookings (snd (post_bookings pg throws uuid1 uuid2 db body))))
          = (if truthy_num (total_amount body) then total_amount body else None)
    \<and> b_currency (last (bookings (snd (post_bookings pg throws uuid1 uuid2 db body))))
        = (if truthy (currency body) then currency body else Some ''USD'')"
proof -
  from post_bookings_committed [OF assms] obtain c p r k s e where
    after: "snd (post_bookings pg throws uuid1 uuid2 db body) =
          (if falsy (cust_id c)
           then db\<lparr>customers := customers db @ [new_customer uuid1 c]\<rparr> else db)
          \<lparr>bookings := bookings db @
             [new_booking uuid2 p r k
                (if truthy_flag (hold body) then ''hold'' else ''confirmed'') s e body]\<rparr>"
    by blast
  show ?thesis
    unfolding after by (simp add: new_booking_def)
qed

text \<open>
  C10. The claim: when \<open>total_amount\<close> and \<open>currency\<close> are supplied they are stored as
  given, and when omitted the booking has a null \<open>total_amount\<close> and the currency
  \<open>'USD'\<close>. The handler stores \<open>body.total_amount || null\<close>: a request that supplies the
  amount 0 (the double whose bits are all zero) is admitted and its booking stores null,
  as it does for a request without the field.
\<close>

theorem zero_amount_stored_as_null:
  "fst (post_bookings scenario_pg no_failure uuid_c1 uuid_b1 scenario_db
          ((request property_P1 room_R_id ''2025-09-12'' ''2025-09-14'')
             \<lparr>total_amount := Some 0\<rparr>))
     = Created uuid_b1 ''confirmed''
   \<and> b_total_amount (last (bookings (snd
          (post_bookings scenario_pg no_failure uuid_c1 uuid_b1 scenario_db
             ((request property_P1 room_R_id ''2025-09-12'' ''2025-09-14'')
                \<lparr>total_amount := Some 0\<rparr>)))))
     = None
   \<and> b_total_amount (last (bookings (snd
          (post_bookings scenario_pg no_failure uuid_c1 uuid_b1 scenario_db
             ((request property_P1 room_R_id ''2025-09-12'' ''2025-09-14'')
                \<lparr>total_amount := Some 0x406E000000000000, currency := Some ''EUR''\<rparr>)))))
     = Some 0x406E000000000000
   \<and> b_currency (last (bookings (snd
          (post_bookings scenario_pg no_failure uuid_c1 uuid_b1 scenario_db
             ((request property_P1 room_R_id ''2025-09-12'' ''2025-09-14'')
                \<lparr>total_amount := Some 0x406E000000000000, currency := Some ''EUR''\<rparr>)))))
     = Some ''EUR''"
  by (simp add: handler_defs scenario_defs input_defs)

section \<open>The availability query\<close>

text \<open>
  What the handler lists: the rooms of the property that no active booking \<^emph>\<open>recorded
  under the same property id\<close> blocks for the window. Where the property id of every
  booking is the one of its room, these are the rooms of the property with no active
  overlapping booking.
\<close>

lemma mark_blocked_Some:
  "mark_blocked bs m k =
     (if \<exists>b \<in> set bs. js_key (b_room_id b) = k then Some True else m k)"
  by (induction bs arbitrary: m) auto

lemma get_availability_lists:
  assumes "propertyId q = Some p" and "p \<noteq> []"
    and "q_from q = Some f" and "f \<noteq> []"
    and "q_to q = Some t" and "t \<noteq> []"
    and "\<not> throws SELECT_rooms" and "\<not> throws SELECT_bookings"
    and "uuid_in pg p = Some pid" and "date_in pg f = Some d2" and "date_in pg t = Some d3"
  shows "get_availability pg throws db q =
    (Available f t
       (filter (\<lambda>r. \<not> ((\<exists>b \<in> set (bookings db).
                  b_property_id b = Some pid \<and> js_key (b_room_id b) = fst r \<and> active b
                  \<and> b_start_date b < d3 \<and> b_end_date b > d2)
                \<or> fst r \<in> set object_prototype))
          (select_rooms db pid)),
     [SELECT_rooms, SELECT_bookings])"
proof -
  have blocked: "truthy_property (mark_blocked (select_bookings db pid d2 d3) Map.empty) k \<longleftrightarrow>
      (\<exists>b \<in> set (bookings db).
          b_property_id b = Some pid \<and> js_key (b_room_id b) = k \<and> active b
          \<and> b_start_date b < d3 \<and> b_end_date b > d2)
      \<or> k \<in> set object_prototype" for k
    by (auto simp: truthy_property_def mark_blocked_Some select_bookings_def
        sql_window_filter_def)
  show ?thesis
    using assms
    by (simp add: get_availability_def falsy_def truthy_def str_def Let_def blocked)
qed

lemma availability_when_property_ids_agree:
  assumes "propertyId q = Some p" and "p \<noteq> []"
    and "q_from q = Some f" and "f \<noteq> []"
    and "q_to q = Some t" and "t \<noteq> []"
    and "\<not> throws SELECT_rooms" and "\<not> throws SELECT_bookings"
    and "uuid_in pg p = Some pid" and "date_in pg f = Some d2" and "date_in pg t = Some d3"
    and agree: "\<forall>b \<in> set (bookings db). \<forall>r \<in> set (rooms db).
                  b_room_id b = Some (r_id r) \<longrightarrow> b_property_id b = r_property_id r"
    and ids: "\<forall>r \<in> set (rooms db). r_id r \<noteq> ''null'' \<and> r_id r \<notin> set object_prototype"
  shows "fst (get_availability pg throws db q) =
    Available f t
       (filter (\<lambda>r. \<not> (\<exists>b \<in> set (bookings db).
                  b_room_id b = Some (fst r) \<and> active b
                  \<and> b_start_date b < d3 \<and> b_end_date b > d2))
          (select_rooms db pid))"
proof -
  have "(\<exists>b \<in> set (bookings db).
            b_property_id b = Some pid \<and> js_key (b_room_id b) = fst r \<and> active b
            \<and> b_start_date b < d3 \<and> b_end_date b > d2)
          \<or> fst r \<in> set object_prototype
      \<longleftrightarrow> (\<exists>b \<in> set (bookings db).
            b_room_id b = Some (fst r) \<and> active b
            \<and> b_start_date b < d3 \<and> b_end_date b > d2)"
    if "r \<in> set (select_rooms db pid)" for r
  proof -
    from that obtain x where
      x: "x \<in> set (rooms db)" "r_property_id x = Some pid" "fst r = r_id x"
      by (auto simp: select_rooms_def)
    have key: "js_key (b_room_id b) = r_id x \<longleftrightarrow> b_room_id b = Some (r_id x)" for b
      using ids x(1) by (cases "b_room_id b") (auto simp: js_key_def)
    have own: "r_id x \<notin> set object_prototype"
      using ids x(1) by blast
    have owner: "b_property_id b = Some pid"
      if "b \<in> set (bookings db)" "b_room_id b = Some (r_id x)" for b
      using agree that x(1,2) by auto
    show ?thesis
      unfolding x(3) key using owner own by blast
  qed
  then show ?thesis
    by (simp add: get_availability_lists [OF assms(1-11)] cong: filter_cong)
qed

text \<open>
  C7. The claim: the query lists exactly the rooms of the property that no active booking
  overlaps in the window, and never a room with an intersecting active booking. The
  handler selects the blocking bookings by the \<open>property_id\<close> column of \<open>bookings\<close>,
  which \<open>POST /bookings\<close> copies from the request without comparing it with the room's
  property. After room R of property P1 is booked for \<open>[2025-09-14, 2025-09-16)\<close>
  through a request that names property P2, the query for P1 and that window lists R,
  while an admission on R for the same window is rejected as a conflict.
\<close>

theorem availability_lists_booked_room:
  "fst (post_bookings scenario_pg no_failure uuid_c1 uuid_b1 scenario_db
          (request property_P2 room_R_id ''2025-09-14'' ''2025-09-16''))
     = Created uuid_b1 ''confirmed''
   \<and> get_availability scenario_pg no_failure
        (snd (post_bookings scenario_pg no_failure uuid_c1 uuid_b1 scenario_db
           (request property_P2 room_R_id ''2025-09-14'' ''2025-09-16'')))
        \<lparr>propertyId = Some property_P1, q_from = Some ''2025-09-14'',
         q_to = Some ''2025-09-16''\<rparr>
     = (Available ''2025-09-14'' ''2025-09-16'' [(room_R_id, ''101'', Some ''double'')],
        [SELECT_rooms, SELECT_bookings])
   \<and> fst (post_bookings scenario_pg no_failure uuid_c2 uuid_b2
        (snd (post_bookings scenario_pg no_failure uuid_c1 uuid_b1 scenario_db
           (request property_P2 room_R_id ''2025-09-14'' ''2025-09-16'')))
        (request property_P1 room_R_id ''2025-09-14'' ''2025-09-16''))
     = Conflict ''room not available for given dates''"
  by (simp add: handler_defs scenario_defs input_defs)

text \<open>
  C8. The claim: a window that does not satisfy \<open>from < to\<close> is rejected with a client
  error before any storage read. The handler tests only that the three parameters are
  present: for the inverted window \<open>[2025-09-12, 2025-09-10)\<close> and for the empty
  window \<open>[2025-09-11, 2025-09-11)\<close> it sends both \<open>SELECT\<close>s and replies 200.
\<close>

theorem availability_accepts_inverted_window:
  "get_availability scenario_pg no_failure scenario_db
     \<lparr>propertyId = Some property_P1, q_from = Some ''2025-09-12'',
      q_to = Some ''2025-09-10''\<rparr>
     = (Available ''2025-09-12'' ''2025-09-10'' [(room_R_id, ''101'', Some ''double'')],
        [SELECT_rooms, SELECT_bookings])
   \<and> get_availability scenario_pg no_failure scenario_db
     \<lparr>propertyId = Some property_P1, q_from = Some ''2025-09-11'',
      q_to = Some ''2025-09-11''\<rparr>
     = (Available ''2025-09-11'' ''2025-09-11'' [],
        [SELECT_rooms, SELECT_bookings])"
  by (simp add: handler_defs scenario_defs input_defs)

section \<open>The overlap predicate\<close>

lemma datesOverlap_sym: "datesOverlap a1 a2 b1 b2 = datesOverlap b1 b2 a1 a2"
  by (auto simp: datesOverlap_def)

text \<open>
  C5 (as the code has it). \<open>datesOverlap\<close> is a total function of its four arguments
  whose value is exactly \<open>a1 < b2 \<and> a2 > b1\<close>; touching intervals (\<open>a2 = b1\<close>) do not
  overlap; and a zero-length interval \<open>[a, a)\<close> overlaps \<open>[b1, b2)\<close> exactly when it
  lies strictly inside it, \<open>b1 < a < b2\<close>, so that it overlaps neither an interval it
  touches nor another zero-length interval.
\<close>

theorem datesOverlap_contract:
  "(datesOverlap a1 a2 b1 b2 \<longleftrightarrow> a1 < b2 \<and> a2 > b1)
   \<and> \<not> datesOverlap a1 a2 a2 b2
   \<and> \<not> datesOverlap a2 b2 a1 a2
   \<and> (datesOverlap a a b1 b2 \<longleftrightarrow> b1 < a \<and> a < b2)
   \<and> \<not> datesOverlap a a b b"
  by (auto simp: datesOverlap_def)

text \<open>
  C5 as stated fails for a zero-length interval inside another one: the empty interval
  \<open>[2025-09-11, 2025-09-11)\<close> is reported as overlapping \<open>[2025-09-10, 2025-09-12)\<close>.
\<close>

theorem datesOverlap_zero_length_counterexample:
  "datesOverlap ''2025-09-11'' ''2025-09-11'' ''2025-09-10'' ''2025-09-12''"
  by (simp add: datesOverlap_def)

subsection \<open>The order of ISO texts is the order of their dates\<close>

lemma digit_char_code: "i < 10 \<Longrightarrow> of_char (digit_char i) = 48 + i"
proof -
  assume "i < 10"
  then have "i = 0 \<or> i = 1 \<or> i = 2 \<or> i = 3 \<or> i = 4 \<or> i = 5 \<or> i = 6
    \<or> i = 7 \<or> i = 8 \<or> i = 9" by arith
  then show ?thesis by (elim disjE) (simp_all add: digit_char_def)
qed

lemma digit_char_less: "i < 10 \<Longrightarrow> j < 10 \<Longrightarrow> digit_char i < digit_char j \<longleftrightarrow> i < j"
  by (simp only: less_char_def digit_char_code) simp

lemma digit_char_eq: "i < 10 \<Longrightarrow> j < 10 \<Longrightarrow> digit_char i = digit_char j \<longleftrightarrow> i = j"
proof
  assume "i < 10" "j < 10" "digit_char i = digit_char j"
  then have "(48::nat) + i = 48 + j"
    by (simp only: digit_char_code [symmetric])
  then show "i = j" by simp
qed simp

lemma less_by_blocks:
  fixes q r q' r' :: nat
  assumes "0 < b" and "r < b" and "r' < b"
  shows "q * b + r < q' * b + r' \<longleftrightarrow> q < q' \<or> q = q' \<and> r < r'"
proof (cases q q' rule: linorder_cases)
  case less
  then have "Suc q \<le> q'" by simp
  then have "Suc q * b \<le> q' * b" by (rule mult_le_mono1)
  with assms less show ?thesis by simp
next
  case equal
  then show ?thesis by simp
next
  case greater
  then have "Suc q' \<le> q" by simp
  then have "Suc q' * b \<le> q * b" by (rule mult_le_mono1)
  with assms greater show ?thesis by simp
qed

lemma less_by_div_mod:
  fixes m n b :: nat
  assumes "0 < b"
  shows "m < n \<longleftrightarrow> m div b < n div b \<or> m div b = n div b \<and> m mod b < n mod b"
  using less_by_blocks [of b "m mod b" "n mod b" "m div b" "n div b"] assms
  by simp

lemma eq_by_div_mod:
  fixes m n b :: nat
  shows "m = n \<longleftrightarrow> m div b = n div b \<and> m mod b = n mod b"
  by (metis div_mult_mod_eq)

lemma pad2_less: "m < 100 \<Longrightarrow> n < 100 \<Longrightarrow> pad2 m < pad2 n \<longleftrightarrow> m < n"
  by (simp add: pad2_def digit_char_less digit_char_eq less_by_div_mod [of 10 m n]
      less_mult_imp_div_less)

lemma pad2_eq: "m < 100 \<Longrightarrow> n < 100 \<Longrightarrow> pad2 m = pad2 n \<longleftrightarrow> m = n"
  by (simp add: pad2_def digit_char_eq eq_by_div_mod [of m n 10] less_mult_imp_div_less)

lemma append_less_same_length:
  "length xs = length ys \<Longrightarrow> xs @ us < ys @ vs \<longleftrightarrow> xs < ys \<or> xs = ys \<and> us < vs"
  for xs ys :: "'a::linorder list"
  by (induction xs ys rule: list_induct2) auto

lemma pad4_less: "m < 10000 \<Longrightarrow> n < 10000 \<Longrightarrow> pad4 m < pad4 n \<longleftrightarrow> m < n"
proof -
  assume a: "m < 10000" "n < 10000"
  then have b: "m div 100 < 100" "n div 100 < 100" "m mod 100 < 100" "n mod 100 < 100"
    by (simp_all add: less_mult_imp_div_less)
  have "length (pad2 (m div 100)) = length (pad2 (n div 100))" by (simp add: pad2_def)
  then have "pad4 m < pad4 n \<longleftrightarrow>
      pad2 (m div 100) < pad2 (n div 100)
      \<or> pad2 (m div 100) = pad2 (n div 100) \<and> pad2 (m mod 100) < pad2 (n mod 100)"
    unfolding pad4_def by (rule append_less_same_length)
  also have "\<dots> \<longleftrightarrow> m div 100 < n div 100 \<or> m div 100 = n div 100 \<and> m mod 100 < n mod 100"
    by (simp only: pad2_less [OF b(1,2)] pad2_less [OF b(3,4)] pad2_eq [OF b(1,2)])
  also have "\<dots> \<longleftrightarrow> m < n"
    by (simp only: less_by_div_mod [of 100 m n, simplified])
  finally show ?thesis .
qed

lemma pad4_eq: "m < 10000 \<Longrightarrow> n < 10000 \<Longrightarrow> pad4 m = pad4 n \<longleftrightarrow> m = n"
proof -
  assume a: "m < 10000" "n < 10000"
  then have b: "m div 100 < 100" "n div 100 < 100" "m mod 100 < 100" "n mod 100 < 100"
    by (simp_all add: less_mult_imp_div_less)
  have "pad4 m = pad4 n \<longleftrightarrow>
      pad2 (m div 100) = pad2 (n div 100) \<and> pad2 (m mod 100) = pad2 (n mod 100)"
    by (simp add: pad4_def pad2_def)
  also have "\<dots> \<longleftrightarrow> m div 100 = n div 100 \<and> m mod 100 = n mod 100"
    by (simp only: pad2_eq [OF b(1,2)] pad2_eq [OF b(3,4)])
  also have "\<dots> \<longleftrightarrow> m = n"
    by (simp only: eq_by_div_mod [of m n 100])
  finally show ?thesis .
qed

lemma iso_text_less:
  assumes "iso_range a" and "iso_range b"
  shows "iso_text a < iso_text b \<longleftrightarrow> a < b"
proof -
  obtain y m d where a: "a = (y, m, d)" by (cases a)
  obtain y' m' d' where b: "b = (y', m', d')" by (cases b)
  from assms have r: "y < 10000" "m < 100" "d < 100" "y' < 10000" "m' < 100" "d' < 100"
    by (simp_all add: iso_range_def a b)
  have l4: "length (pad4 y) = length (pad4 y')" by (simp add: pad4_def pad2_def)
  have l2: "length (pad2 m) = length (pad2 m')" by (simp add: pad2_def)
  have "iso_text a < iso_text b \<longleftrightarrow>
          pad4 y < pad4 y'
          \<or> pad4 y = pad4 y' \<and> (pad2 m < pad2 m' \<or> pad2 m = pad2 m' \<and> pad2 d < pad2 d')"
    by (simp add: a b iso_text_def append_less_same_length [OF l4]
        append_less_same_length [OF l2])
  also have "\<dots> \<longleftrightarrow> y < y' \<or> y = y' \<and> (m < m' \<or> m = m' \<and> d < d')"
    by (simp add: pad4_less pad4_eq pad2_less pad2_eq r)
  also have "\<dots> \<longleftrightarrow> a < b"
    by (auto simp: a b)
  finally show ?thesis .
qed

text \<open>The database of the scenario reads the ISO text of an existing day as that day.\<close>

lemma digit_char_facts:
  assumes "i < 10"
  shows "digit_char i \<noteq> CHR ''-''" and "is_digit (digit_char i)"
    and "digit_value (digit_char i) = i"
proof -
  have code: "of_char (digit_char i) = 48 + i"
    using assms by (rule digit_char_code)
  show "digit_char i \<noteq> CHR ''-''"
  proof
    assume "digit_char i = CHR ''-''"
    then have "of_char (digit_char i) = (45::nat)" by simp
    with code show False by simp
  qed
  show "is_digit (digit_char i)"
    unfolding is_digit_def less_eq_char_def code using assms by simp
  show "digit_value (digit_char i) = i"
    unfolding digit_value_def code by simp
qed

lemma decimal_pad2: "n < 100 \<Longrightarrow> decimal acc (pad2 n) = 100 * acc + n"
  by (simp add: pad2_def digit_char_facts less_mult_imp_div_less)

lemma decimal_append: "decimal acc (xs @ ys) = decimal (decimal acc xs) ys"
  by (induction xs arbitrary: acc) simp_all

lemma decimal_pad4: "n < 10000 \<Longrightarrow> decimal 0 (pad4 n) = n"
  by (simp add: pad4_def decimal_append decimal_pad2 less_mult_imp_div_less)

lemma date_in_ymd_iso_text:
  assumes "valid_date a" and "iso_range a"
  shows "date_in_ymd (iso_text a) = Some a"
proof -
  obtain y m d where a: "a = (y, m, d)" by (cases a)
  from assms have r: "y < 10000" "m < 100" "d < 100"
    by (simp_all add: iso_range_def a)
  then have digits: "y div 100 div 10 < 10" "y div 100 mod 10 < 10" "y mod 100 div 10 < 10"
    "y mod 100 mod 10 < 10" "m div 10 < 10" "m mod 10 < 10" "d div 10 < 10" "d mod 10 < 10"
    by (simp_all add: less_mult_imp_div_less)
  have shape: "iso_text a = pad4 y @ CHR ''-'' # pad2 m @ CHR ''-'' # pad2 d"
    by (simp add: a iso_text_def)
  have y: "takeWhile (\<lambda>c. c \<noteq> CHR ''-'') (iso_text a) = pad4 y"
    and rest: "drop 1 (dropWhile (\<lambda>c. c \<noteq> CHR ''-'') (iso_text a))
                 = pad2 m @ CHR ''-'' # pad2 d"
    by (simp_all add: shape pad4_def pad2_def digit_char_facts digits)
  have m: "takeWhile (\<lambda>c. c \<noteq> CHR ''-'') (pad2 m @ CHR ''-'' # pad2 d) = pad2 m"
    and d: "drop 1 (dropWhile (\<lambda>c. c \<noteq> CHR ''-'') (pad2 m @ CHR ''-'' # pad2 d)) = pad2 d"
    by (simp_all add: pad2_def digit_char_facts digits)
  have all: "list_all is_digit (pad4 y @ pad2 m @ pad2 d)"
    by (simp add: pad4_def pad2_def digit_char_facts digits)
  have len: "length (pad4 y) = 4" "length (pad2 m) = 2" "length (pad2 d) = 2"
    by (simp_all add: pad4_def pad2_def)
  have val: "decimal 0 (pad4 y) = y" "decimal 0 (pad2 m) = m" "decimal 0 (pad2 d) = d"
    using r by (simp_all add: decimal_pad4 decimal_pad2)
  show ?thesis
    unfolding date_in_ymd_def Let_def y rest m d
    using assms(1) by (simp only: len val all a) simp
qed

text \<open>
  C6 (as the code has it). For intervals whose four endpoints are dates written in the
  ISO form \<open>YYYY-MM-DD\<close>, the predicate on the texts and the filter of the two SQL
  queries on the dates decide the same relation: \<open>datesOverlap\<close> of the four texts
  equals \<open>NOT (endA <= startB OR startA >= endB)\<close> of the four dates.
\<close>

theorem datesOverlap_agrees_on_iso_dates:
  assumes "iso_range startA" and "iso_range endA" and "iso_range startB" and "iso_range endB"
  shows "datesOverlap (iso_text startA) (iso_text endA) (iso_text startB) (iso_text endB)
           = (\<not> (endA \<le> startB \<or> startA \<ge> endB))
    \<and> datesOverlap (iso_text startA) (iso_text endA) (iso_text startB) (iso_text endB)
           = sql_window_filter startA endA startB endB"
  using assms
  by (auto simp: datesOverlap_def sql_window_filter_def iso_text_less)

theorem datesOverlap_agrees_on_iso_dates_witness:
  "iso_text (2025, 9, 10) = ''2025-09-10'' \<and> iso_text (2025, 9, 12) = ''2025-09-12''
   \<and> iso_text (2025, 9, 11) = ''2025-09-11'' \<and> iso_text (2025, 9, 13) = ''2025-09-13''
   \<and> date_in scenario_pg ''2025-09-11'' = Some (2025, 9, 11)
   \<and> date_in scenario_pg ''2025-09-13'' = Some (2025, 9, 13)
   \<and> datesOverlap ''2025-09-10'' ''2025-09-12'' ''2025-09-11'' ''2025-09-13''
   \<and> sql_window_filter (2025, 9, 10) (2025, 9, 12) (2025, 9, 11) (2025, 9, 13)
   \<and> select_conflicts scenario_db room_R_id (2025, 9, 11) (2025, 9, 13) = [booking_B0]"
proof -
  have texts: "iso_text (2025, 9, 10) = ''2025-09-10''" "iso_text (2025, 9, 12) = ''2025-09-12''"
    "iso_text (2025, 9, 11) = ''2025-09-11''" "iso_text (2025, 9, 13) = ''2025-09-13''"
    by (simp_all add: iso_text_def pad4_def pad2_def digit_char_def)
  have range: "iso_range (2025, 9, 10)" "iso_range (2025, 9, 12)" "iso_range (2025, 9, 11)"
    "iso_range (2025, 9, 13)"
    by (simp_all add: iso_range_def)
  have reads: "date_in scenario_pg ''2025-09-11'' = Some (2025, 9, 11)"
    "date_in scenario_pg ''2025-09-13'' = Some (2025, 9, 13)"
    by (simp_all add: scenario_defs input_defs Let_def)
  have filter: "sql_window_filter (2025, 9, 10) (2025, 9, 12) (2025, 9, 11) (2025, 9, 13)"
    by (simp add: sql_window_filter_def)
  have rows: "select_conflicts scenario_db room_R_id (2025, 9, 11) (2025, 9, 13) = [booking_B0]"
    by (simp add: select_conflicts_def sql_window_filter_def active_def scenario_defs)
  from datesOverlap_agrees_on_iso_dates [OF range] texts filter
  have "datesOverlap ''2025-09-10'' ''2025-09-12'' ''2025-09-11'' ''2025-09-13''"
    by simp
  with texts reads filter rows show ?thesis by simp
qed

text \<open>
  Where the stored dates and the window have ISO texts, the conflict query selects the
  active bookings of the room whose texts \<open>datesOverlap\<close> reports as overlapping the
  texts of the window.
\<close>

lemma select_conflicts_by_datesOverlap:
  assumes "\<forall>b \<in> set (bookings db). iso_range (b_start_date b) \<and> iso_range (b_end_date b)"
    and "iso_range d2" and "iso_range d3"
  shows "select_conflicts db r d2 d3 =
    filter (\<lambda>b. b_room_id b = Some r
               \<and> datesOverlap (iso_text (b_start_date b)) (iso_text (b_end_date b))
                    (iso_text d2) (iso_text d3)
               \<and> active b) (bookings db)"
  unfolding select_conflicts_def
  using assms
  by (intro filter_cong refl)
     (auto simp: datesOverlap_def sql_window_filter_def iso_text_less)

text \<open>
  C6 as stated fails for dates that are not written in the ISO form. For the stored
  interval \<open>[2025-09-10, 2025-09-12)\<close> and the window \<open>2025-09-1\<close> to \<open>2025-09-2\<close>, which
  the database reads as 1 and 2 September, the predicate reports an overlap, the filter
  does not, and the conflict query of the admission selects no row.
\<close>

theorem datesOverlap_unpadded_day_counterexample:
  "datesOverlap ''2025-09-10'' ''2025-09-12'' ''2025-09-1'' ''2025-09-2''
   \<and> date_in scenario_pg ''2025-09-10'' = Some (2025, 9, 10)
   \<and> date_in scenario_pg ''2025-09-12'' = Some (2025, 9, 12)
   \<and> date_in scenario_pg ''2025-09-1'' = Some (2025, 9, 1)
   \<and> date_in scenario_pg ''2025-09-2'' = Some (2025, 9, 2)
   \<and> \<not> sql_window_filter (2025, 9, 10) (2025, 9, 12) (2025, 9, 1) (2025, 9, 2)
   \<and> select_conflicts scenario_db room_R_id (2025, 9, 1) (2025, 9, 2) = []"
  by (simp add: datesOverlap_def select_conflicts_def sql_window_filter_def active_def
      scenario_defs input_defs Let_def)

section \<open>Serial admissions on one room\<close>

lemma valid_fields:
  assumes "valid_for pg r body"
  obtains c p s e where "truthy (property_id body)" and "truthy (room_id body)"
    and "truthy (start_date body)" and "truthy (end_date body)"
    and "str (start_date body) < str (end_date body)"
    and "customer body = Some c"
    and "uuid_in pg (str (room_id body)) = Some r"
    and "uuid_in pg (str (property_id body)) = Some p"
    and "date_in pg (str (start_date body)) = Some s"
    and "date_in pg (str (end_date body)) = Some e"
    and "window pg body = Some (s, e)"
    and "falsy (cust_id c) \<or> uuid_in pg (str (cust_id c)) \<noteq> None"
proof -
  from assms have "truthy (end_date body)"
    by (cases "end_date body") (auto simp: valid_for_def truthy_def str_def)
  with assms that show ?thesis
    by (auto simp: valid_for_def window_def split: option.splits)
qed

lemma valid_rejected:
  assumes "valid_for pg r body" and "\<not> room_free pg db r body"
  shows "post_bookings pg no_failure uuid1 uuid2 db body =
           (Conflict ''room not available for given dates'', db)"
proof -
  from assms(1) obtain c p s e where f: "truthy (property_id body)" "truthy (room_id body)"
    "truthy (start_date body)" "truthy (end_date body)"
    "str (start_date body) < str (end_date body)"
    "customer body = Some c"
    "uuid_in pg (str (room_id body)) = Some r"
    "date_in pg (str (start_date body)) = Some s"
    "date_in pg (str (end_date body)) = Some e"
    "window pg body = Some (s, e)"
    by (rule valid_fields)
  from assms(2) f(10) have "select_conflicts db r s e \<noteq> []"
    by (simp add: room_free_def)
  with f show ?thesis
    by (simp add: post_bookings_def try_block_def falsy_def no_failure_def)
qed

lemma valid_admitted:
  assumes "valid_for pg r body" and "room_free pg db r body"
  shows "fst (post_bookings pg no_failure uuid1 uuid2 db body) =
           Created uuid2 (if truthy_flag (hold body) then ''hold'' else ''confirmed'')"
proof -
  from assms(1) obtain c p s e where f: "truthy (property_id body)" "truthy (room_id body)"
    "truthy (start_date body)" "truthy (end_date body)"
    "str (start_date body) < str (end_date body)"
    "customer body = Some c"
    "uuid_in pg (str (room_id body)) = Some r"
    "uuid_in pg (str (property_id body)) = Some p"
    "date_in pg (str (start_date body)) = Some s"
    "date_in pg (str (end_date body)) = Some e"
    "window pg body = Some (s, e)"
    "falsy (cust_id c) \<or> uuid_in pg (str (cust_id c)) \<noteq> None"
    by (rule valid_fields)
  from assms(2) f(11) have "select_conflicts db r s e = []"
    by (simp add: room_free_def)
  with f show ?thesis
    by (auto simp: post_bookings_def try_block_def falsy_def no_failure_def Let_def)
qed

lemma valid_committed_bookings:
  assumes "valid_for pg r body" and "room_free pg db r body"
  shows "\<exists>n. bookings (snd (post_bookings pg no_failure uuid1 uuid2 db body)) = bookings db @ [n]
     \<and> b_room_id n = Some r \<and> active n
     \<and> window pg body = Some (b_start_date n, b_end_date n)"
proof -
  from valid_admitted [OF assms, of uuid1 uuid2]
  have "is_created (fst (post_bookings pg no_failure uuid1 uuid2 db body))"
    by (simp add: is_created_def)
  from post_bookings_committed [OF this] assms(1) show ?thesis
    by (auto simp: new_booking_def active_def valid_for_def window_def)
qed

text \<open>
  While an active booking of the room overlaps the window of every request, every request
  is rejected and nothing is stored.
\<close>

lemma rejected_while_blocked:
  assumes "\<forall>x \<in> set reqs. valid_for pg r (snd (snd x))"
    and "\<forall>x \<in> set reqs. \<not> room_free pg db r (snd (snd x))"
  shows "admit_serially pg db reqs =
           (map (\<lambda>_. Conflict ''room not available for given dates'') reqs, db)"
  using assms
proof (induction reqs)
  case Nil
  then show ?case by simp
next
  case (Cons x reqs)
  obtain uuid1 uuid2 body where x: "x = (uuid1, uuid2, body)" by (cases x)
  from Cons.prems have v: "valid_for pg r body" and nf: "\<not> room_free pg db r body"
    by (simp_all add: x)
  from Cons have "admit_serially pg db reqs =
           (map (\<lambda>_. Conflict ''room not available for given dates'') reqs, db)"
    by simp
  then show ?case
    by (simp add: x valid_rejected [OF v nf])
qed

text \<open>
  Requests for one room in serial order: when the first finds the room free and the
  window of every later one overlaps the first one's, the first is admitted and all the
  others are rejected.
\<close>

lemma serial_overlapping_one_commits:
  assumes valid: "valid_for pg r body" "\<forall>x \<in> set rest. valid_for pg r (snd (snd x))"
    and free: "room_free pg db r body"
    and overlap: "\<forall>x \<in> set rest. windows_overlap pg body (snd (snd x))"
  shows "fst (admit_serially pg db ((uuid1, uuid2, body) # rest)) =
           Created uuid2 (if truthy_flag (hold body) then ''hold'' else ''confirmed'')
           # map (\<lambda>_. Conflict ''room not available for given dates'') rest"
proof -
  let ?db' = "snd (post_bookings pg no_failure uuid1 uuid2 db body)"
  from valid_committed_bookings [OF valid(1) free, of uuid1 uuid2] obtain n where
    n: "bookings ?db' = bookings db @ [n]" "b_room_id n = Some r" "active n"
       "window pg body = Some (b_start_date n, b_end_date n)"
    by blast
  have "\<not> room_free pg ?db' r (snd (snd x))" if "x \<in> set rest" for x
  proof -
    from overlap that have "windows_overlap pg body (snd (snd x))" by blast
    then obtain s e where w: "window pg (snd (snd x)) = Some (s, e)"
      and o: "b_start_date n < e" "b_end_date n > s"
      by (auto simp: windows_overlap_def n(4) split: option.splits)
    have "n \<in> set (select_conflicts ?db' r s e)"
      using n o by (simp add: select_conflicts_def sql_window_filter_def not_le)
    then show ?thesis by (auto simp: room_free_def w)
  qed
  with rejected_while_blocked [of rest pg r ?db'] valid(2)
  have "admit_serially pg ?db' rest =
           (map (\<lambda>_. Conflict ''room not available for given dates'') rest, ?db')"
    by blast
  with valid_admitted [OF valid(1) free, of uuid1 uuid2] show ?thesis
    by (simp add: split_beta)
qed

text \<open>
  Requests for one room whose windows are pairwise disjoint, and free in the stored
  bookings, are all admitted.
\<close>

lemma serial_disjoint_all_commit:
  assumes "\<forall>x \<in> set reqs. valid_for pg r (snd (snd x))"
    and "\<forall>x \<in> set reqs. room_free pg db r (snd (snd x))"
    and "sorted_wrt (\<lambda>x y. \<not> windows_overlap pg (snd (snd x)) (snd (snd y))) reqs"
  shows "fst (admit_serially pg db reqs) =
           map (\<lambda>x. Created (fst (snd x))
                  (if truthy_flag (hold (snd (snd x))) then ''hold'' else ''confirmed'')) reqs"
  using assms
proof (induction reqs arbitrary: db)
  case Nil
  then show ?case by simp
next
  case (Cons x reqs)
  obtain uuid1 uuid2 body where x: "x = (uuid1, uuid2, body)" by (cases x)
  let ?db' = "snd (post_bookings pg no_failure uuid1 uuid2 db body)"
  from Cons.prems have v: "valid_for pg r body" and f: "room_free pg db r body"
    by (simp_all add: x)
  from valid_committed_bookings [OF v f, of uuid1 uuid2] obtain n where
    n: "bookings ?db' = bookings db @ [n]" "b_room_id n = Some r" "active n"
       "window pg body = Some (b_start_date n, b_end_date n)"
    by blast
  have "room_free pg ?db' r (snd (snd y))" if "y \<in> set reqs" for y
  proof -
    from Cons.prems that have free: "room_free pg db r (snd (snd y))"
      and apart: "\<not> windows_overlap pg body (snd (snd y))"
      by (auto simp: x)
    from free obtain s e where w: "window pg (snd (snd y)) = Some (s, e)"
      and none: "select_conflicts db r s e = []"
      by (auto simp: room_free_def split: option.splits)
    from apart w have "\<not> (b_start_date n < e \<and> b_end_date n > s)"
      by (simp add: windows_overlap_def n(4))
    with none n show ?thesis
      by (auto simp: room_free_def w select_conflicts_def sql_window_filter_def not_le)
  qed
  with Cons.IH [of ?db'] Cons.prems
  have "fst (admit_serially pg ?db' reqs) =
           map (\<lambda>x. Created (fst (snd x))
                  (if truthy_flag (hold (snd (snd x))) then ''hold'' else ''confirmed'')) reqs"
    by simp
  with valid_admitted [OF v f, of uuid1 uuid2] show ?case
    by (simp add: x split_beta)
qed

end
